theory Spec2Isabelle
  imports Main "HOL-Library.Word"
begin

section \<open>The game session of \<open>src/game.c\<close>\<close>

text \<open>
  \<open>game.c\<close> owns a session (\<open>game_t\<close>): a lifetime ledger \<open>lt\<close>, a state and four
  resource pointers. Everything else is a collaborator that the file only calls: the
  player, the platforms (level geometry), the camera, SDL and the error channel.

  The embedding is by explicit state passing.
  \<^item> A pointer is a \<open>ptr\<close>: \<open>None\<close> is \<open>NULL\<close>, \<open>Some h\<close> the address \<open>h\<close>.
  \<^item> Every call that \<open>game.c\<close> makes on a collaborator is recorded, in program order, as
    an \<open>effect\<close>; a function of the model returns the effects of one call of the C function.
    The pure reads (\<open>keyboard_state[...]\<close>, \<open>SDL_JoystickGetAxis\<close>) are not recorded.
  \<^item> What a collaborator answers (a handle or \<open>NULL\<close>, a return code) is an argument of the
    model, so that a theorem holds for every behaviour of the collaborators.
  \<^item> \<open>assert\<close> on a pointer that the function then only dereferences (\<open>game\<close>, \<open>event\<close>,
    \<open>keyboard_state\<close>, \<open>renderer\<close>, the \<open>level_file_path\<close> argument) is the type of the
    argument here. The two assertions that the control flow can tell apart,
    \<open>assert(delta_time > 0)\<close> and \<open>assert(the_stick_of_joy)\<close>, are branches of the model
    that return \<open>Inl Assertion_failed\<close>.
\<close>

subsection \<open>Data\<close>

type_synonym handle = nat
type_synonym ptr = "handle option"

text \<open>\<open>typedef enum game_state_t\<close>, with its count sentinel.\<close>

datatype game_state_t =
    GAME_STATE_RUNNING
  | GAME_STATE_PAUSE
  | GAME_STATE_QUIT
  | GAME_STATE_N

text \<open>The destructors that \<open>game.c\<close> hands to the ledger.\<close>

datatype release_op = Free | Destroy_player | Destroy_platforms | Destroy_camera

datatype error_type_t = ERROR_TYPE_LIBC | ERROR_TYPE_SDL2

datatype error = Assertion_failed

text \<open>
  A \<open>char *\<close> that points to a buffer is the address together with the string it holds.
\<close>

type_synonym cstr_ptr = "(handle \<times> string) option"

text \<open>
  The calls on the collaborators. A producer is recorded with what it returned. The float
  literals of \<open>create_player(100.0f, 0.0f)\<close> and \<open>vec(0.0f, 0.0f)\<close> are whole numbers and
  are written as such. \<open>Malloc_game\<close> is \<open>malloc(sizeof(game_t))\<close>, \<open>Malloc_chars n\<close> is
  \<open>malloc(sizeof(char) * n)\<close>, \<open>Printf_reloading p\<close> is the \<open>printf\<close> of the reload
  message with argument \<open>p\<close>, and \<open>Release d h\<close> is the call \<open>d(h)\<close> of a destructor
  stored in the ledger.
\<close>

datatype effect =
    Malloc_game ptr
  | Malloc_chars nat ptr
  | Strcpy handle string
  | Create_player int int ptr
  | Load_platforms_from_file "string option" ptr
  | Create_camera int int ptr
  | Throw_error error_type_t
  | Print_current_error_msg string
  | Printf_reloading cstr_ptr
  | Release release_op handle
  | Player_jump ptr
  | Player_move_left ptr
  | Player_move_right ptr
  | Player_stop ptr
  | Update_player ptr ptr "32 word"
  | Player_focus_camera ptr ptr
  | SDL_SetRenderDrawColor handle "8 word" "8 word" "8 word" "8 word"
  | SDL_RenderClear handle
  | Render_player ptr handle ptr
  | Render_platforms ptr handle ptr
  | SDL_RenderPresent handle

subsection \<open>The lifetime ledger (\<open>lt.h\<close>)\<close>

text \<open>
  \<open>lt.h\<close> and its implementation are not among the sources; \<open>game.c\<close> uses them through
  \<open>create_lt\<close>, \<open>PUSH_LT\<close>, \<open>RESET_LT\<close>, \<open>RETURN_LT\<close> and \<open>RETURN_LT0\<close>. The ledger is
  the list of its entries in registration order, oldest first.
\<close>

type_synonym lt_t = "(handle \<times> release_op) list"

definition release :: "handle \<times> release_op \<Rightarrow> effect" where
  "release e = Release (snd e) (fst e)"

text \<open>
  Modelled from the spec: \<open>PUSH_LT\<close> (the ledger's \<open>register\<close>) is missing from the
  sources. The spec: it returns the handle unchanged for chaining, and it fails only if the
  ledger itself cannot grow, leaving prior entries untouched. \<open>can_grow n\<close> tells whether a
  ledger of \<open>n\<close> entries can take one more. A \<open>NULL\<close> handle (a producer that failed) is
  returned unchanged and is not a registration. A failure is the result \<open>NULL\<close>, which is
  what \<open>create_game\<close> tests.
\<close>

definition lt_push :: "(nat \<Rightarrow> bool) \<Rightarrow> lt_t \<Rightarrow> ptr \<Rightarrow> release_op \<Rightarrow> lt_t \<times> ptr" where
  "lt_push can_grow lt resource resource_destroy =
     (case resource of
        None \<Rightarrow> (lt, None)
      | Some h \<Rightarrow>
          if can_grow (length lt) then (lt @ [(h, resource_destroy)], Some h)
          else (lt, None))"

text \<open>
  Modelled from the spec: \<open>destroy_lt\<close> behind \<open>RETURN_LT\<close> and \<open>RETURN_LT0\<close> (the
  ledger's \<open>release_all\<close>) is missing from the sources. The spec: it iterates the entries
  newest to oldest and invokes each release operation exactly once.
\<close>

definition destroy_lt :: "lt_t \<Rightarrow> effect list" where
  "destroy_lt lt = map release (rev lt)"

text \<open>
  Modelled from the spec: the search of \<open>RESET_LT\<close> for the entry to replace is missing
  from the sources. \<open>game.c\<close> names the entry by the handle it holds; it is the oldest
  entry that holds the old handle. The old handle is released through the release operation
  stored with it, and the entry takes the new handle at the same position with the same
  release operation. The spec does not say what happens when no entry holds the old
  handle: nothing is released and nothing changes then.
\<close>

fun lt_replace :: "handle \<Rightarrow> handle \<Rightarrow> lt_t \<Rightarrow> lt_t \<times> effect list" where
  "lt_replace old new [] = ([], [])"
| "lt_replace old new (e # es) =
     (if fst e = old then ((new, snd e) # es, [release e])
      else (case lt_replace old new es of (es', t) \<Rightarrow> (e # es', t)))"

text \<open>
  Modelled from the spec: \<open>RESET_LT\<close> (the ledger's \<open>replace\<close>) is missing from the
  sources. The spec: if the producer failed, the old handle stays registered, nothing is
  released and the operation signals the failure (the \<open>NULL\<close> that \<open>game_event_running\<close>
  tests); if it succeeded, the old handle is released, the entry is updated and the new
  handle is returned.
\<close>

definition lt_reset :: "lt_t \<Rightarrow> ptr \<Rightarrow> ptr \<Rightarrow> lt_t \<times> ptr \<times> effect list" where
  "lt_reset lt old_resource new_resource =
     (case new_resource of
        None \<Rightarrow> (lt, None, [])
      | Some new \<Rightarrow>
          (case old_resource of
             None \<Rightarrow> (lt, Some new, [])
           | Some old \<Rightarrow>
               (case lt_replace old new lt of (lt', t) \<Rightarrow> (lt', Some new, t))))"

subsection \<open>The session\<close>

record game_t =
  lt :: lt_t
  state :: game_state_t
  player :: ptr
  platforms :: ptr
  camera :: ptr
  level_file_path :: cstr_ptr

text \<open>
  What the allocators and producers called by \<open>create_game\<close> answer.
\<close>

record create_answers =
  create_lt_ok :: bool
  can_grow :: "nat \<Rightarrow> bool"
  malloc_game :: ptr
  create_player :: ptr
  load_platforms_from_file :: ptr
  create_camera :: ptr
  malloc_chars :: ptr

text \<open>
  \<open>create_game\<close>. The fields of the fresh \<open>game_t\<close> are assigned one by one in the source;
  the record is built when the last one is. The result is the session (\<open>None\<close> is the
  \<open>NULL\<close> of a failed construction) and the effects.
\<close>

definition create_game :: "string \<Rightarrow> create_answers \<Rightarrow> game_t option \<times> effect list" where
  "create_game path a =
     (if \<not> create_lt_ok a then (None, [])
      else
        case lt_push (can_grow a) [] (malloc_game a) Free of (lt1, game) \<Rightarrow>
        let t1 = [Malloc_game (malloc_game a)] in
        if game = None then (None, t1 @ [Throw_error ERROR_TYPE_LIBC] @ destroy_lt lt1)
        else
        case lt_push (can_grow a) lt1 (create_player a) Destroy_player of (lt2, game_player) \<Rightarrow>
        let t2 = t1 @ [Create_player 100 0 (create_player a)] in
        if game_player = None then (None, t2 @ destroy_lt lt2)
        else
        case lt_push (can_grow a) lt2 (load_platforms_from_file a) Destroy_platforms
          of (lt3, game_platforms) \<Rightarrow>
        let t3 = t2 @ [Load_platforms_from_file (Some path) (load_platforms_from_file a)] in
        if game_platforms = None then (None, t3 @ destroy_lt lt3)
        else
        case lt_push (can_grow a) lt3 (create_camera a) Destroy_camera of (lt4, game_camera) \<Rightarrow>
        let t4 = t3 @ [Create_camera 0 0 (create_camera a)] in
        if game_camera = None then (None, t4 @ destroy_lt lt4)
        else
        case lt_push (can_grow a) lt4 (malloc_chars a) Free of (lt5, buf) \<Rightarrow>
        let t5 = t4 @ [Malloc_chars (length path + 1) (malloc_chars a)] in
        (case buf of
           None \<Rightarrow> (None, t5 @ [Throw_error ERROR_TYPE_LIBC] @ destroy_lt lt5)
         | Some b \<Rightarrow>
             (Some \<lparr> lt = lt5, state = GAME_STATE_RUNNING, player = game_player,
                     platforms = game_platforms, camera = game_camera,
                     level_file_path = Some (b, path) \<rparr>,
              t5 @ [Strcpy b path])))"

definition destroy_game :: "game_t \<Rightarrow> effect list" where
  "destroy_game game = destroy_lt (lt game)"

text \<open>
  What the drawing calls of \<open>game_render\<close> answer: the return codes of
  \<open>SDL_SetRenderDrawColor\<close>, \<open>SDL_RenderClear\<close>, \<open>render_player\<close> and \<open>render_platforms\<close>.
\<close>

record render_answers =
  set_render_draw_color :: int
  render_clear :: int
  render_player :: int
  render_platforms :: int

definition game_render :: "game_t \<Rightarrow> handle \<Rightarrow> render_answers \<Rightarrow> int \<times> effect list" where
  "game_render game renderer a =
     (if state game = GAME_STATE_QUIT then (0, [])
      else
        let t1 = [SDL_SetRenderDrawColor renderer 0 0 0 255] in
        if set_render_draw_color a < 0 then (- 1, t1 @ [Throw_error ERROR_TYPE_SDL2])
        else
        let t2 = t1 @ [SDL_RenderClear renderer] in
        if render_clear a < 0 then (- 1, t2 @ [Throw_error ERROR_TYPE_SDL2])
        else
        let t3 = t2 @ [Render_player (player game) renderer (camera game)] in
        if render_player a < 0 then (- 1, t3)
        else
        let t4 = t3 @ [Render_platforms (platforms game) renderer (camera game)] in
        if render_platforms a < 0 then (- 1, t4)
        else (0, t4 @ [SDL_RenderPresent renderer]))"

definition game_update :: "game_t \<Rightarrow> 32 word \<Rightarrow> error + (int \<times> game_t \<times> effect list)" where
  "game_update game delta_time =
     (if \<not> delta_time > 0 then Inl Assertion_failed
      else if state game = GAME_STATE_QUIT then Inr (0, game, [])
      else if state game = GAME_STATE_RUNNING then
        Inr (0, game,
             [Update_player (player game) (platforms game) delta_time,
              Player_focus_camera (player game) (camera game)])
      else Inr (0, game, []))"

text \<open>
  \<open>SDL_Event\<close> is a union tagged by \<open>type\<close>; \<open>game.c\<close> reads \<open>key.keysym.sym\<close> of a key
  press and \<open>jbutton.button\<close> of a joystick button press. Every other event type is
  \<open>SDL_OTHER\<close>. The key codes are those of SDL2.
\<close>

datatype SDL_Event =
    SDL_QUIT
  | SDL_KEYDOWN "32 word"
  | SDL_JOYBUTTONDOWN "8 word"
  | SDL_OTHER

definition SDLK_SPACE :: "32 word" where "SDLK_SPACE = 32"
definition SDLK_q :: "32 word" where "SDLK_q = 113"
definition SDLK_p :: "32 word" where "SDLK_p = 112"

definition game_event_pause :: "game_t \<Rightarrow> SDL_Event \<Rightarrow> int \<times> game_t \<times> effect list" where
  "game_event_pause game event =
     (case event of
        SDL_QUIT \<Rightarrow> (0, game\<lparr>state := GAME_STATE_QUIT\<rparr>, [])
      | SDL_KEYDOWN keysym \<Rightarrow>
          if keysym = SDLK_p then (0, game\<lparr>state := GAME_STATE_RUNNING\<rparr>, [])
          else (0, game, [])
      | _ \<Rightarrow> (0, game, []))"

text \<open>
  \<open>game_event_running\<close>; \<open>load\<close> is what \<open>load_platforms_from_file\<close> answers if it is
  called.
\<close>

definition game_event_running ::
  "game_t \<Rightarrow> SDL_Event \<Rightarrow> ptr \<Rightarrow> int \<times> game_t \<times> effect list" where
  "game_event_running game event load =
     (case event of
        SDL_QUIT \<Rightarrow> (0, game\<lparr>state := GAME_STATE_QUIT\<rparr>, [])
      | SDL_KEYDOWN keysym \<Rightarrow>
          if keysym = SDLK_SPACE then (0, game, [Player_jump (player game)])
          else if keysym = SDLK_q then
            (let t1 = [Printf_reloading (level_file_path game),
                       Load_platforms_from_file (map_option snd (level_file_path game)) load]
             in case lt_reset (lt game) (platforms game) load of (lt', p, t2) \<Rightarrow>
               let game1 = game\<lparr>lt := lt', platforms := p\<rparr> in
               if platforms game1 = None then
                 (- 1, game1\<lparr>state := GAME_STATE_QUIT\<rparr>,
                  t1 @ t2 @ [Print_current_error_msg ''Could not reload the level''])
               else (0, game1, t1 @ t2))
          else if keysym = SDLK_p then (0, game\<lparr>state := GAME_STATE_PAUSE\<rparr>, [])
          else (0, game, [])
      | SDL_JOYBUTTONDOWN button \<Rightarrow>
          if button = 1 then (0, game, [Player_jump (player game)])
          else (0, game, [])
      | SDL_OTHER \<Rightarrow> (0, game, []))"

definition game_event :: "game_t \<Rightarrow> SDL_Event \<Rightarrow> ptr \<Rightarrow> int \<times> game_t \<times> effect list" where
  "game_event game event load =
     (case state game of
        GAME_STATE_RUNNING \<Rightarrow> game_event_running game event load
      | GAME_STATE_PAUSE \<Rightarrow> game_event_pause game event
      | _ \<Rightarrow> (0, game, []))"

text \<open>
  \<open>keyboard_state\<close> is SDL's array of key states indexed by scancode. An
  \<open>SDL_Joystick\<close> is the device state that \<open>SDL_JoystickGetAxis\<close> reads: the position of
  each axis, a signed 16-bit value. The scancodes are those of SDL2.
\<close>

type_synonym SDL_Joystick = "int \<Rightarrow> 16 word"

definition SDL_SCANCODE_A :: nat where "SDL_SCANCODE_A = 4"
definition SDL_SCANCODE_D :: nat where "SDL_SCANCODE_D = 7"

definition SDL_JoystickGetAxis :: "SDL_Joystick \<Rightarrow> int \<Rightarrow> int" where
  "SDL_JoystickGetAxis joystick axis = sint (joystick axis)"

definition axis_negative :: "SDL_Joystick option \<Rightarrow> bool" where
  "axis_negative the_stick_of_joy =
     (case the_stick_of_joy of None \<Rightarrow> False | Some j \<Rightarrow> SDL_JoystickGetAxis j 0 < 0)"

definition axis_positive :: "SDL_Joystick option \<Rightarrow> bool" where
  "axis_positive the_stick_of_joy =
     (case the_stick_of_joy of None \<Rightarrow> False | Some j \<Rightarrow> SDL_JoystickGetAxis j 0 > 0)"

definition game_input ::
  "game_t \<Rightarrow> (nat \<Rightarrow> 8 word) \<Rightarrow> SDL_Joystick option \<Rightarrow> error + (int \<times> game_t \<times> effect list)"
  where
  "game_input game keyboard_state the_stick_of_joy =
     (if the_stick_of_joy = None then Inl Assertion_failed
      else if state game = GAME_STATE_QUIT \<or> state game = GAME_STATE_PAUSE then
        Inr (0, game, [])
      else if keyboard_state SDL_SCANCODE_A \<noteq> 0 then
        Inr (0, game, [Player_move_left (player game)])
      else if keyboard_state SDL_SCANCODE_D \<noteq> 0 then
        Inr (0, game, [Player_move_right (player game)])
      else if axis_negative the_stick_of_joy then
        Inr (0, game, [Player_move_left (player game)])
      else if axis_positive the_stick_of_joy then
        Inr (0, game, [Player_move_right (player game)])
      else Inr (0, game, [Player_stop (player game)]))"

definition is_game_over :: "game_t \<Rightarrow> bool" where
  "is_game_over game = (state game = GAME_STATE_QUIT)"

subsection \<open>Sequences of calls\<close>

text \<open>
  The surrounding application calls the four entry points of a live session in some order.
  A \<open>call\<close> is one such call with its arguments and with what the collaborators answer
  during it; \<open>game_calls\<close> makes the calls of a list one after the other and returns the
  return codes, the session after the last call and all effects. A failed assertion ends
  the process, and the run with it. \<open>asserted\<close> says that a call satisfies the
  assertions of its entry point.
\<close>

datatype call =
    Input "nat \<Rightarrow> 8 word" "SDL_Joystick option"
  | Event SDL_Event ptr
  | Update "32 word"
  | Render handle render_answers

fun game_call :: "game_t \<Rightarrow> call \<Rightarrow> error + (int \<times> game_t \<times> effect list)" where
  "game_call game (Input keyboard_state the_stick_of_joy) =
     game_input game keyboard_state the_stick_of_joy"
| "game_call game (Event event load) = Inr (game_event game event load)"
| "game_call game (Update delta_time) = game_update game delta_time"
| "game_call game (Render renderer a) =
     (case game_render game renderer a of (rc, t) \<Rightarrow> Inr (rc, game, t))"

fun game_calls :: "game_t \<Rightarrow> call list \<Rightarrow> error + (int list \<times> game_t \<times> effect list)" where
  "game_calls game [] = Inr ([], game, [])"
| "game_calls game (c # cs) =
     (case game_call game c of
        Inl e \<Rightarrow> Inl e
      | Inr (rc, game', t) \<Rightarrow>
          (case game_calls game' cs of
             Inl e \<Rightarrow> Inl e
           | Inr (rcs, game'', t') \<Rightarrow> Inr (rc # rcs, game'', t @ t')))"

fun asserted :: "call \<Rightarrow> bool" where
  "asserted (Input keyboard_state the_stick_of_joy) = (the_stick_of_joy \<noteq> None)"
| "asserted (Update delta_time) = (0 < delta_time)"
| "asserted (Event event load) = True"
| "asserted (Render renderer a) = True"

text \<open>
  \<open>push_all\<close> registers a list of resources one after the other, and is \<open>None\<close> as soon
  as one registration fails.
\<close>

fun push_all :: "(nat \<Rightarrow> bool) \<Rightarrow> lt_t \<Rightarrow> (handle \<times> release_op) list \<Rightarrow> lt_t option" where
  "push_all grow l [] = Some l"
| "push_all grow l (r # rs) =
     (case lt_push grow l (Some (fst r)) (snd r) of
        (l', None) \<Rightarrow> None
      | (l', Some h) \<Rightarrow> push_all grow l' rs)"

text \<open>
  The paths of the successful calls of \<open>load_platforms_from_file\<close> among some effects, in
  the order of the calls.
\<close>

fun successful_loads :: "effect list \<Rightarrow> string option list" where
  "successful_loads [] = []"
| "successful_loads (Load_platforms_from_file p (Some h) # t) = p # successful_loads t"
| "successful_loads (e # t) = successful_loads t"

text \<open>
  The handles that \<open>load_platforms_from_file\<close> answers during the calls of a list.
\<close>

fun loads :: "call list \<Rightarrow> handle list" where
  "loads [] = []"
| "loads (Event event (Some h) # cs) = h # loads cs"
| "loads (c # cs) = loads cs"

subsection \<open>Concrete inputs\<close>

text \<open>
  A ledger that can always grow, a keyboard with every key down, one with every key up, a
  joystick pushed to the left, and a session as \<open>create_game\<close> builds it from the handles
  1 to 5 and the path \<open>level.txt\<close>.
\<close>

definition always_grows :: "nat \<Rightarrow> bool" where
  "always_grows n = True"

definition all_keys_down :: "nat \<Rightarrow> 8 word" where
  "all_keys_down scancode = 1"

definition all_keys_up :: "nat \<Rightarrow> 8 word" where
  "all_keys_up scancode = 0"

definition stick_left :: SDL_Joystick where
  "stick_left axis = - 32768"

abbreviation answers_1_to_5 :: create_answers where
  "answers_1_to_5 \<equiv>
     \<lparr> create_lt_ok = True, can_grow = always_grows, malloc_game = Some 1,
       create_player = Some 2, load_platforms_from_file = Some 3,
       create_camera = Some 4, malloc_chars = Some 5 \<rparr>"

abbreviation ledger_1_to_5 :: lt_t where
  "ledger_1_to_5 \<equiv>
     [(1, Free), (2, Destroy_player), (3, Destroy_platforms), (4, Destroy_camera),
      (5, Free)]"

abbreviation session_in :: "game_state_t \<Rightarrow> game_t" where
  "session_in s \<equiv>
     \<lparr> lt = ledger_1_to_5, state = s, player = Some 2, platforms = Some 3,
       camera = Some 4, level_file_path = Some (5, ''level.txt'') \<rparr>"

abbreviation construction_effects :: "effect list" where
  "construction_effects \<equiv>
     [Malloc_game (Some 1), Create_player 100 0 (Some 2),
      Load_platforms_from_file (Some ''level.txt'') (Some 3),
      Create_camera 0 0 (Some 4), Malloc_chars 10 (Some 5), Strcpy 5 ''level.txt'']"

abbreviation failed_reload_effects :: "effect list" where
  "failed_reload_effects \<equiv>
     [Printf_reloading (Some (5, ''level.txt'')),
      Load_platforms_from_file (Some ''level.txt'') None,
      Print_current_error_msg ''Could not reload the level'']"

text \<open>
  The session \<open>session_in GAME_STATE_RUNNING\<close> after a reload that answered the handle 6
  and a window close.
\<close>

abbreviation reloaded_session :: game_t where
  "reloaded_session \<equiv>
     \<lparr> lt = [(1, Free), (2, Destroy_player), (6, Destroy_platforms), (4, Destroy_camera),
              (5, Free)],
       state = GAME_STATE_QUIT, player = Some 2, platforms = Some 6,
       camera = Some 4, level_file_path = Some (5, ''level.txt'') \<rparr>"

section \<open>Properties\<close>

subsection \<open>The ledger\<close>

lemma push_all_append: "push_all grow l rs = Some l' \<Longrightarrow> l' = l @ rs"
proof (induction rs arbitrary: l)
  case Nil
  then show ?case by simp
next
  case (Cons r rs)
  show ?case
  proof (cases "grow (length l)")
    case True
    with Cons.prems have "push_all grow (l @ [r]) rs = Some l'"
      by (simp add: lt_push_def)
    then have "l' = (l @ [r]) @ rs" by (rule Cons.IH)
    then show ?thesis by simp
  next
    case False
    with Cons.prems show ?thesis by (simp add: lt_push_def)
  qed
qed

lemma lt_replace_no_load:
  "lt_replace old new l = (l', t) \<Longrightarrow> successful_loads t = []"
  by (induction l arbitrary: l' t) (auto simp: release_def split: if_splits prod.splits)

lemma lt_reset_no_load:
  assumes "lt_reset l old new = (l', p, t)"
  shows "successful_loads t = [] \<and> p = new"
  using assms
  by (auto simp: lt_reset_def split: option.splits prod.splits dest: lt_replace_no_load)



lemma lt_replace_shape:
  "lt_replace old new l = (l', t) \<Longrightarrow> map snd l' = map snd l"
  by (induction l arbitrary: l' t) (auto split: if_splits prod.splits)

lemma lt_reset_shape:
  assumes "lt_reset l old new = (l', p, t)"
  shows "map snd l' = map snd l"
  using assms
  by (auto simp: lt_reset_def split: option.splits prod.splits dest: lt_replace_shape)

subsection \<open>Reloading the level\<close>

text \<open>
  Claim C2. In a running session, when the producer of the reload
  (\<open>load_platforms_from_file\<close>, called for the key \<open>q\<close>) fails, the ledger after the
  event is the ledger before it, so the entry of the old platforms holds the same handle
  at the same place, and no release operation is called.
\<close>

theorem reload_failure_keeps_ledger:
  assumes "state g = GAME_STATE_RUNNING"
    and "game_event g (SDL_KEYDOWN SDLK_q) None = (rc, g', t)"
  shows "lt g' = lt g \<and> (\<forall>d h. Release d h \<notin> set t)"
  using assms
  by (auto simp: game_event_def game_event_running_def lt_reset_def SDLK_q_def SDLK_SPACE_def)

theorem reload_failure_keeps_ledger_witness:
  "state (session_in GAME_STATE_RUNNING) = GAME_STATE_RUNNING \<and>
   game_event (session_in GAME_STATE_RUNNING) (SDL_KEYDOWN SDLK_q) None =
     (- 1, (session_in GAME_STATE_QUIT)\<lparr>platforms := None\<rparr>, failed_reload_effects) \<and>
   lt ((session_in GAME_STATE_QUIT)\<lparr>platforms := None\<rparr>) = ledger_1_to_5 \<and>
   Release Destroy_platforms 3 \<notin> set failed_reload_effects"
  using reload_failure_keeps_ledger
    [of "session_in GAME_STATE_RUNNING" "- 1"
        "(session_in GAME_STATE_QUIT)\<lparr>platforms := None\<rparr>" failed_reload_effects]
  by (simp add: game_event_def game_event_running_def lt_reset_def SDLK_q_def SDLK_SPACE_def)

text \<open>
  Claim C3. In a running session, when the reload for the key \<open>q\<close> fails, \<open>game_event\<close>
  reports the error through \<open>print_current_error_msg\<close>, sets the state to
  \<open>GAME_STATE_QUIT\<close> and returns \<open>-1\<close>; and \<open>game_event\<close> returns a value other than 0
  in this case only.
\<close>

theorem reload_failure_terminates:
  "(state g = GAME_STATE_RUNNING \<longrightarrow>
      game_event g (SDL_KEYDOWN SDLK_q) None =
        (- 1, g\<lparr>state := GAME_STATE_QUIT, platforms := None\<rparr>,
         [Printf_reloading (level_file_path g),
          Load_platforms_from_file (map_option snd (level_file_path g)) None,
          Print_current_error_msg ''Could not reload the level''])) \<and>
   (fst (game_event g ev load) \<noteq> 0 \<longleftrightarrow>
      state g = GAME_STATE_RUNNING \<and> ev = SDL_KEYDOWN SDLK_q \<and> load = None)"
  by (auto simp: game_event_def game_event_running_def game_event_pause_def lt_reset_def
      SDLK_q_def SDLK_SPACE_def SDLK_p_def Let_def
      split: game_state_t.splits SDL_Event.splits option.splits prod.splits if_splits)

theorem reload_failure_terminates_witness:
  "state (session_in GAME_STATE_RUNNING) = GAME_STATE_RUNNING \<and>
   game_event (session_in GAME_STATE_RUNNING) (SDL_KEYDOWN SDLK_q) None =
     (- 1, (session_in GAME_STATE_QUIT)\<lparr>platforms := None\<rparr>, failed_reload_effects) \<and>
   fst (game_event (session_in GAME_STATE_RUNNING) (SDL_KEYDOWN SDLK_q) (Some 6)) = 0 \<and>
   fst (game_event (session_in GAME_STATE_PAUSE) (SDL_KEYDOWN SDLK_q) None) = 0 \<and>
   fst (game_event (session_in GAME_STATE_RUNNING) (SDL_KEYDOWN SDLK_p) None) = 0"
  using reload_failure_terminates
    [of "session_in GAME_STATE_RUNNING" "SDL_KEYDOWN SDLK_q" "Some 6"]
    reload_failure_terminates
    [of "session_in GAME_STATE_PAUSE" "SDL_KEYDOWN SDLK_q" None]
    reload_failure_terminates
    [of "session_in GAME_STATE_RUNNING" "SDL_KEYDOWN SDLK_p" None]
  by (simp add: SDLK_q_def SDLK_p_def)

subsection \<open>Construction\<close>

text \<open>
  Claim C4. When the load of the platforms fails during \<open>create_game\<close>, no session is
  returned, and the resources registered before the load, the player and the storage of
  the session, are released through the ledger, each once and the player first.
\<close>

theorem failed_load_releases_player:
  "(load_platforms_from_file a = None \<longrightarrow> fst (create_game path a) = None) \<and>
   (create_lt_ok a \<and> malloc_game a = Some gh \<and> can_grow a 0 \<and>
    create_player a = Some p \<and> can_grow a 1 \<and> load_platforms_from_file a = None \<longrightarrow>
      create_game path a =
        (None,
         [Malloc_game (Some gh), Create_player 100 0 (Some p),
          Load_platforms_from_file (Some path) None,
          Release Destroy_player p, Release Free gh]))"
  by (auto simp: create_game_def lt_push_def Let_def destroy_lt_def release_def
      split: option.splits)

theorem failed_load_releases_player_witness:
  "create_lt_ok (answers_1_to_5\<lparr>load_platforms_from_file := None\<rparr>) \<and>
   malloc_game (answers_1_to_5\<lparr>load_platforms_from_file := None\<rparr>) = Some 1 \<and>
   can_grow (answers_1_to_5\<lparr>load_platforms_from_file := None\<rparr>) 0 \<and>
   create_player (answers_1_to_5\<lparr>load_platforms_from_file := None\<rparr>) = Some 2 \<and>
   can_grow (answers_1_to_5\<lparr>load_platforms_from_file := None\<rparr>) 1 \<and>
   load_platforms_from_file (answers_1_to_5\<lparr>load_platforms_from_file := None\<rparr>) = None \<and>
   fst (create_game ''missing.txt'' (answers_1_to_5\<lparr>load_platforms_from_file := None\<rparr>))
     = None \<and>
   create_game ''missing.txt'' (answers_1_to_5\<lparr>load_platforms_from_file := None\<rparr>) =
     (None,
      [Malloc_game (Some 1), Create_player 100 0 (Some 2),
       Load_platforms_from_file (Some ''missing.txt'') None,
       Release Destroy_player 2, Release Free 1])"
  using failed_load_releases_player
    [of "answers_1_to_5\<lparr>load_platforms_from_file := None\<rparr>" "''missing.txt''" 1 2]
  by (simp add: always_grows_def)

subsection \<open>The entry points of a frame\<close>

lemma game_call_quit:
  assumes "state g = GAME_STATE_QUIT"
  shows "game_call g c = (if asserted c then Inr (0, g, []) else Inl Assertion_failed)"
  using assms
  by (cases c) (auto simp: game_input_def game_event_def game_update_def game_render_def)


text \<open>
  Claim C5. Once the state is \<open>GAME_STATE_QUIT\<close>, every sequence of calls of
  \<open>game_input\<close>, \<open>game_event\<close>, \<open>game_update\<close> and \<open>game_render\<close> that satisfy the
  assertions of these functions returns 0 each time, leaves the session as it is, and
  makes no call on any collaborator: no command to the player, and no drawing. A sequence
  with a call that violates an assertion ends in the failed assertion.
\<close>

theorem terminated_is_absorbing:
  assumes "state g = GAME_STATE_QUIT"
  shows "game_calls g cs =
           (if \<forall>c \<in> set cs. asserted c then Inr (replicate (length cs) 0, g, [])
            else Inl Assertion_failed)"
  using assms
  by (induction cs) (simp_all add: game_call_quit)

theorem terminated_is_absorbing_witness:
  "state (session_in GAME_STATE_QUIT) = GAME_STATE_QUIT \<and>
   asserted (Input all_keys_down (Some stick_left)) \<and>
   asserted (Event (SDL_KEYDOWN SDLK_p) None) \<and>
   asserted (Event (SDL_KEYDOWN SDLK_q) (Some 6)) \<and>
   asserted (Update 16) \<and>
   asserted (Render 9 \<lparr> set_render_draw_color = 0, render_clear = 0, render_player = 0,
                        render_platforms = 0 \<rparr>) \<and>
   game_calls (session_in GAME_STATE_QUIT)
     [Input all_keys_down (Some stick_left), Event (SDL_KEYDOWN SDLK_p) None,
      Event (SDL_KEYDOWN SDLK_q) (Some 6), Update 16,
      Render 9 \<lparr> set_render_draw_color = 0, render_clear = 0, render_player = 0,
                 render_platforms = 0 \<rparr>] =
     Inr ([0, 0, 0, 0, 0], session_in GAME_STATE_QUIT, []) \<and>
   game_calls (session_in GAME_STATE_QUIT) [Update 16, Update 0] = Inl Assertion_failed"
  using terminated_is_absorbing [of "session_in GAME_STATE_QUIT" "[Update 16, Update 0]"]
    terminated_is_absorbing
    [of "session_in GAME_STATE_QUIT"
        "[Input all_keys_down (Some stick_left), Event (SDL_KEYDOWN SDLK_p) None,
          Event (SDL_KEYDOWN SDLK_q) (Some 6), Update 16,
          Render 9 \<lparr> set_render_draw_color = 0, render_clear = 0, render_player = 0,
                     render_platforms = 0 \<rparr>]"]
  by simp

text \<open>
  Claim C6. In a running session, \<open>game_input\<close> with a joystick issues exactly one
  command to the player: move left if the left key is down, else move right if the right
  key is down, else move left if the axis is negative, else move right if the axis is
  positive, else stop. With both keys down the command is move left.
\<close>

theorem input_precedence:
  assumes "state g = GAME_STATE_RUNNING"
  shows "game_input g keys (Some j) =
           Inr (0, g,
             [if keys SDL_SCANCODE_A \<noteq> 0 then Player_move_left (player g)
              else if keys SDL_SCANCODE_D \<noteq> 0 then Player_move_right (player g)
              else if SDL_JoystickGetAxis j 0 < 0 then Player_move_left (player g)
              else if SDL_JoystickGetAxis j 0 > 0 then Player_move_right (player g)
              else Player_stop (player g)]) \<and>
         (keys SDL_SCANCODE_A \<noteq> 0 \<and> keys SDL_SCANCODE_D \<noteq> 0 \<longrightarrow>
            game_input g keys (Some j) = Inr (0, g, [Player_move_left (player g)]))"
  using assms by (simp add: game_input_def axis_negative_def axis_positive_def)

theorem input_precedence_witness:
  "state (session_in GAME_STATE_RUNNING) = GAME_STATE_RUNNING \<and>
   all_keys_down SDL_SCANCODE_A \<noteq> 0 \<and> all_keys_down SDL_SCANCODE_D \<noteq> 0 \<and>
   game_input (session_in GAME_STATE_RUNNING) all_keys_down (Some stick_left) =
     Inr (0, session_in GAME_STATE_RUNNING, [Player_move_left (Some 2)]) \<and>
   game_input (session_in GAME_STATE_RUNNING) all_keys_up (Some stick_left) =
     Inr (0, session_in GAME_STATE_RUNNING, [Player_move_left (Some 2)])"
  using input_precedence [of "session_in GAME_STATE_RUNNING" all_keys_down stick_left]
    input_precedence [of "session_in GAME_STATE_RUNNING" all_keys_up stick_left]
  by (simp add: all_keys_down_def all_keys_up_def stick_left_def SDL_JoystickGetAxis_def)

text \<open>
  Claim C7. In a paused session, \<open>game_update\<close> with a positive elapsed time returns 0,
  leaves the session as it is and makes no call: neither \<open>update_player\<close> nor
  \<open>player_focus_camera\<close>, the only calls of this file that move the player or the camera.
\<close>

theorem pause_suppresses_update:
  assumes "state g = GAME_STATE_PAUSE" and "0 < delta_time"
  shows "game_update g delta_time = Inr (0, g, [])"
  using assms by (simp add: game_update_def)

theorem pause_suppresses_update_witness:
  "state (session_in GAME_STATE_PAUSE) = GAME_STATE_PAUSE \<and> (0 :: 32 word) < 4000000000 \<and>
   game_update (session_in GAME_STATE_PAUSE) 4000000000 =
     Inr (0, session_in GAME_STATE_PAUSE, [])"
  using pause_suppresses_update [of "session_in GAME_STATE_PAUSE" 4000000000]
  by simp

text \<open>
  Claim C8. In a session that is not in \<open>GAME_STATE_QUIT\<close>, when one of the drawing
  calls of \<open>game_render\<close> fails (setting the colour, clearing, drawing the player,
  drawing the platforms), \<open>game_render\<close> returns \<open>-1\<close> and does not call
  \<open>SDL_RenderPresent\<close>; the session is not changed by the call. The frame is aborted at
  the first call that fails: the calls before it have been made, none is made after it,
  and a failure of SDL is recorded with \<open>throw_error\<close>. Only when all four succeed is the
  frame presented.
\<close>

theorem render_failure_aborts_frame:
  assumes "state g \<noteq> GAME_STATE_QUIT"
  shows "(set_render_draw_color a < 0 \<or> render_clear a < 0 \<or>
          render_player a < 0 \<or> render_platforms a < 0 \<longrightarrow>
            fst (game_render g renderer a) = - 1 \<and>
            (\<forall>r. SDL_RenderPresent r \<notin> set (snd (game_render g renderer a))) \<and>
            game_call g (Render renderer a) =
              Inr (- 1, g, snd (game_render g renderer a))) \<and>
         (set_render_draw_color a < 0 \<longrightarrow>
            game_render g renderer a =
              (- 1, [SDL_SetRenderDrawColor renderer 0 0 0 255,
                     Throw_error ERROR_TYPE_SDL2])) \<and>
         (0 \<le> set_render_draw_color a \<and> render_clear a < 0 \<longrightarrow>
            game_render g renderer a =
              (- 1, [SDL_SetRenderDrawColor renderer 0 0 0 255, SDL_RenderClear renderer,
                     Throw_error ERROR_TYPE_SDL2])) \<and>
         (0 \<le> set_render_draw_color a \<and> 0 \<le> render_clear a \<and> render_player a < 0 \<longrightarrow>
            game_render g renderer a =
              (- 1, [SDL_SetRenderDrawColor renderer 0 0 0 255, SDL_RenderClear renderer,
                     Render_player (player g) renderer (camera g)])) \<and>
         (0 \<le> set_render_draw_color a \<and> 0 \<le> render_clear a \<and> 0 \<le> render_player a \<and>
          render_platforms a < 0 \<longrightarrow>
            game_render g renderer a =
              (- 1, [SDL_SetRenderDrawColor renderer 0 0 0 255, SDL_RenderClear renderer,
                     Render_player (player g) renderer (camera g),
                     Render_platforms (platforms g) renderer (camera g)])) \<and>
         (0 \<le> set_render_draw_color a \<and> 0 \<le> render_clear a \<and> 0 \<le> render_player a \<and>
          0 \<le> render_platforms a \<longrightarrow>
            game_render g renderer a =
              (0, [SDL_SetRenderDrawColor renderer 0 0 0 255, SDL_RenderClear renderer,
                   Render_player (player g) renderer (camera g),
                   Render_platforms (platforms g) renderer (camera g),
                   SDL_RenderPresent renderer]))"
  using assms by (auto simp: game_render_def Let_def)

theorem render_failure_aborts_frame_witness:
  "state (session_in GAME_STATE_RUNNING) \<noteq> GAME_STATE_QUIT \<and>
   set_render_draw_color \<lparr> set_render_draw_color = - 1, render_clear = - 1,
                           render_player = - 1, render_platforms = - 1 \<rparr> < 0 \<and>
   game_render (session_in GAME_STATE_RUNNING) 9
     \<lparr> set_render_draw_color = - 1, render_clear = - 1, render_player = - 1,
       render_platforms = - 1 \<rparr> =
     (- 1, [SDL_SetRenderDrawColor 9 0 0 0 255, Throw_error ERROR_TYPE_SDL2]) \<and>
   0 \<le> set_render_draw_color \<lparr> set_render_draw_color = 0, render_clear = - 1,
                               render_player = 0, render_platforms = 0 \<rparr> \<and>
   render_clear \<lparr> set_render_draw_color = 0, render_clear = - 1,
                  render_player = 0, render_platforms = 0 \<rparr> < 0 \<and>
   game_render (session_in GAME_STATE_RUNNING) 9
     \<lparr> set_render_draw_color = 0, render_clear = - 1, render_player = 0,
       render_platforms = 0 \<rparr> =
     (- 1, [SDL_SetRenderDrawColor 9 0 0 0 255, SDL_RenderClear 9,
            Throw_error ERROR_TYPE_SDL2]) \<and>
   game_call (session_in GAME_STATE_RUNNING)
     (Render 9 \<lparr> set_render_draw_color = 0, render_clear = - 1, render_player = 0,
                 render_platforms = 0 \<rparr>) =
     Inr (- 1, session_in GAME_STATE_RUNNING,
          [SDL_SetRenderDrawColor 9 0 0 0 255, SDL_RenderClear 9,
           Throw_error ERROR_TYPE_SDL2]) \<and>
   game_render (session_in GAME_STATE_PAUSE) 9
     \<lparr> set_render_draw_color = 0, render_clear = 0, render_player = - 1,
       render_platforms = 0 \<rparr> =
     (- 1, [SDL_SetRenderDrawColor 9 0 0 0 255, SDL_RenderClear 9,
            Render_player (Some 2) 9 (Some 4)]) \<and>
   game_render (session_in GAME_STATE_RUNNING) 9
     \<lparr> set_render_draw_color = 0, render_clear = 0, render_player = 0,
       render_platforms = - 1 \<rparr> =
     (- 1, [SDL_SetRenderDrawColor 9 0 0 0 255, SDL_RenderClear 9,
            Render_player (Some 2) 9 (Some 4), Render_platforms (Some 3) 9 (Some 4)]) \<and>
   game_render (session_in GAME_STATE_RUNNING) 9
     \<lparr> set_render_draw_color = 0, render_clear = 0, render_player = 0,
       render_platforms = 0 \<rparr> =
     (0, [SDL_SetRenderDrawColor 9 0 0 0 255, SDL_RenderClear 9,
          Render_player (Some 2) 9 (Some 4), Render_platforms (Some 3) 9 (Some 4),
          SDL_RenderPresent 9])"
  using render_failure_aborts_frame
    [of "session_in GAME_STATE_RUNNING"
        "\<lparr> set_render_draw_color = 0, render_clear = 0, render_player = 0,
           render_platforms = 0 \<rparr>" 9]
    render_failure_aborts_frame
    [of "session_in GAME_STATE_RUNNING"
        "\<lparr> set_render_draw_color = - 1, render_clear = - 1, render_player = - 1,
           render_platforms = - 1 \<rparr>" 9]
    render_failure_aborts_frame
    [of "session_in GAME_STATE_RUNNING"
        "\<lparr> set_render_draw_color = 0, render_clear = - 1, render_player = 0,
           render_platforms = 0 \<rparr>" 9]
    render_failure_aborts_frame
    [of "session_in GAME_STATE_PAUSE"
        "\<lparr> set_render_draw_color = 0, render_clear = 0, render_player = - 1,
           render_platforms = 0 \<rparr>" 9]
    render_failure_aborts_frame
    [of "session_in GAME_STATE_RUNNING"
        "\<lparr> set_render_draw_color = 0, render_clear = 0, render_player = 0,
           render_platforms = - 1 \<rparr>" 9]
  by simp

text \<open>
  Claim C10. In a running session, a key press other than space, \<open>q\<close> and \<open>p\<close>, and a
  joystick button press other than button 1, is ignored: \<open>game_event\<close> returns 0, the
  session, with its state and its handles, is as before, and no call is made.
\<close>

theorem other_events_ignored:
  assumes "state g = GAME_STATE_RUNNING"
    and "(\<exists>k. ev = SDL_KEYDOWN k \<and> k \<noteq> SDLK_SPACE \<and> k \<noteq> SDLK_q \<and> k \<noteq> SDLK_p) \<or>
         (\<exists>b. ev = SDL_JOYBUTTONDOWN b \<and> b \<noteq> 1)"
  shows "game_event g ev load = (0, g, [])"
  using assms by (auto simp: game_event_def game_event_running_def)

theorem other_events_ignored_witness:
  "state (session_in GAME_STATE_RUNNING) = GAME_STATE_RUNNING \<and>
   (97 :: 32 word) \<noteq> SDLK_SPACE \<and> (97 :: 32 word) \<noteq> SDLK_q \<and> (97 :: 32 word) \<noteq> SDLK_p \<and>
   (2 :: 8 word) \<noteq> 1 \<and>
   game_event (session_in GAME_STATE_RUNNING) (SDL_KEYDOWN 97) None =
     (0, session_in GAME_STATE_RUNNING, []) \<and>
   game_event (session_in GAME_STATE_RUNNING) (SDL_JOYBUTTONDOWN 2) (Some 6) =
     (0, session_in GAME_STATE_RUNNING, [])"
  using other_events_ignored [of "session_in GAME_STATE_RUNNING" "SDL_KEYDOWN 97" None]
    other_events_ignored [of "session_in GAME_STATE_RUNNING" "SDL_JOYBUTTONDOWN 2" "Some 6"]
  by (simp add: SDLK_SPACE_def SDLK_q_def SDLK_p_def)

subsection \<open>The handles of a live session\<close>

lemma successful_loads_append:
  "successful_loads (t @ t') = successful_loads t @ successful_loads t'"
  by (induction t rule: successful_loads.induct) simp_all

lemma game_event_step:
  assumes "game_event g ev load = (rc, g', t)"
    and "level_file_path g = Some (b, path)"
    and "platforms g = None \<longrightarrow> state g = GAME_STATE_QUIT"
  shows "player g' = player g \<and> camera g' = camera g \<and>
         level_file_path g' = level_file_path g \<and>
         set (successful_loads t) \<subseteq> {Some path} \<and>
         (platforms g' = None \<longrightarrow>
            state g' = GAME_STATE_QUIT \<and>
            (platforms g = None \<or>
             Print_current_error_msg ''Could not reload the level'' \<in> set t))"
proof (cases "state g = GAME_STATE_RUNNING \<and> ev = SDL_KEYDOWN SDLK_q")
  case True
  obtain l' p t2 where r: "lt_reset (lt g) (platforms g) load = (l', p, t2)"
    by (cases "lt_reset (lt g) (platforms g) load") auto
  from lt_reset_no_load [OF r] have n: "successful_loads t2 = []" and p: "p = load"
    by simp_all
  from True have q: "SDLK_q \<noteq> SDLK_SPACE" by (simp add: SDLK_q_def SDLK_SPACE_def)
  show ?thesis
    using assms True r n p q
    by (cases load)
      (auto simp: game_event_def game_event_running_def Let_def successful_loads_append)
next
  case False
  then show ?thesis
    using assms
    by (auto simp: game_event_def game_event_running_def game_event_pause_def
        split: game_state_t.splits SDL_Event.splits if_splits)
qed

lemma game_call_step:
  assumes "game_call g c = Inr (rc, g', t)"
    and "level_file_path g = Some (b, path)"
    and "platforms g = None \<longrightarrow> state g = GAME_STATE_QUIT"
  shows "player g' = player g \<and> camera g' = camera g \<and>
         level_file_path g' = level_file_path g \<and>
         set (successful_loads t) \<subseteq> {Some path} \<and>
         (platforms g' = None \<longrightarrow>
            state g' = GAME_STATE_QUIT \<and>
            (platforms g = None \<or>
             Print_current_error_msg ''Could not reload the level'' \<in> set t))"
proof (cases c)
  case (Event ev load)
  with assms show ?thesis using game_event_step [of g ev load rc g' t b path] by simp
next
  case (Input k j)
  with assms show ?thesis
    by (auto simp: game_input_def split: if_splits)
next
  case (Update d)
  with assms show ?thesis
    by (auto simp: game_update_def split: if_splits)
next
  case (Render r a)
  with assms show ?thesis
    by (auto simp: game_render_def Let_def split: if_splits)
qed

lemma game_calls_inv:
  assumes "game_calls g cs = Inr (rcs, g', t)"
    and "level_file_path g = Some (b, path)"
    and "platforms g = None \<longrightarrow> state g = GAME_STATE_QUIT"
  shows "player g' = player g \<and> camera g' = camera g \<and>
         level_file_path g' = level_file_path g \<and>
         set (successful_loads t) \<subseteq> {Some path} \<and>
         (platforms g' = None \<longrightarrow>
            state g' = GAME_STATE_QUIT \<and>
            (platforms g = None \<or>
             Print_current_error_msg ''Could not reload the level'' \<in> set t))"
  using assms
proof (induction cs arbitrary: g rcs t)
  case Nil
  then show ?case by auto
next
  case (Cons c cs)
  from Cons.prems(1) obtain rc g1 t1 rcs' t2 where
    c: "game_call g c = Inr (rc, g1, t1)" and
    cs: "game_calls g1 cs = Inr (rcs', g', t2)" and
    t: "t = t1 @ t2"
    by (auto split: sum.splits prod.splits)
  note s1 = game_call_step [OF c Cons.prems(2) Cons.prems(3)]
  from s1 Cons.prems(2) have l1: "level_file_path g1 = Some (b, path)" by simp
  from s1 have p1: "platforms g1 = None \<longrightarrow> state g1 = GAME_STATE_QUIT" by simp
  note s2 = Cons.IH [OF cs l1 p1]
  show ?case using s1 s2 t by (auto simp: successful_loads_append)
qed

lemma game_call_shape:
  assumes "game_call g c = Inr (rc, g', t)"
  shows "map snd (lt g') = map snd (lt g)"
proof (cases c)
  case (Event ev load)
  obtain l' p t2 where r: "lt_reset (lt g) (platforms g) load = (l', p, t2)"
    by (cases "lt_reset (lt g) (platforms g) load") auto
  from lt_reset_shape [OF r] have "map snd l' = map snd (lt g)" .
  with assms Event r show ?thesis
    by (auto simp: game_event_def game_event_running_def game_event_pause_def Let_def
        split: game_state_t.splits SDL_Event.splits if_splits)
next
  case (Input k j)
  with assms show ?thesis by (auto simp: game_input_def split: if_splits)
next
  case (Update d)
  with assms show ?thesis by (auto simp: game_update_def split: if_splits)
next
  case (Render r a)
  with assms show ?thesis by (auto split: prod.splits)
qed

lemma game_calls_shape:
  assumes "game_calls g cs = Inr (rcs, g', t)"
  shows "map snd (lt g') = map snd (lt g)"
  using assms
proof (induction cs arbitrary: g rcs t)
  case Nil
  then show ?case by simp
next
  case (Cons c cs)
  from Cons.prems obtain rc g1 t1 rcs' t2 where
    c: "game_call g c = Inr (rc, g1, t1)" and
    cs: "game_calls g1 cs = Inr (rcs', g', t2)"
    by (auto split: sum.splits prod.splits)
  from game_call_shape [OF c] Cons.IH [OF cs] show ?case by simp
qed









subsection \<open>Teardown\<close>

lemma loads_Cons: "set (loads (c # cs)) = set (loads [c]) \<union> set (loads cs)"
  by (induction "c # cs" rule: loads.induct) auto

lemma game_call_ledger:
  assumes "game_call g c = Inr (rc, g', t)"
    and "lt g = [(gh, Free), (p, Destroy_player), (x, Destroy_platforms),
                 (cam, Destroy_camera), (b, Free)]"
    and "platforms g = Some x \<or> platforms g = None"
    and "platforms g = None \<longrightarrow> state g = GAME_STATE_QUIT"
    and "x \<noteq> gh" and "x \<noteq> p"
    and "gh \<notin> set (loads [c])" and "p \<notin> set (loads [c])"
  shows "\<exists>y. lt g' = [(gh, Free), (p, Destroy_player), (y, Destroy_platforms),
                      (cam, Destroy_camera), (b, Free)] \<and>
             (platforms g' = Some y \<or> platforms g' = None) \<and>
             (platforms g' = None \<longrightarrow> state g' = GAME_STATE_QUIT) \<and>
             y \<noteq> gh \<and> y \<noteq> p"
proof (cases c)
  case (Event ev load)
  show ?thesis
  proof (cases "state g = GAME_STATE_RUNNING \<and> ev = SDL_KEYDOWN SDLK_q")
    case True
    then have q: "SDLK_q \<noteq> SDLK_SPACE" by (simp add: SDLK_q_def SDLK_SPACE_def)
    from True assms(3,4) have px: "platforms g = Some x" by auto
    show ?thesis
    proof (cases load)
      case None
      with assms Event True q px show ?thesis
        by (auto simp: game_event_def game_event_running_def lt_reset_def)
    next
      case (Some n)
      with assms Event True q px show ?thesis
        by (auto simp: game_event_def game_event_running_def lt_reset_def)
    qed
  next
    case False
    with assms Event show ?thesis
      by (auto simp: game_event_def game_event_running_def game_event_pause_def
          split: game_state_t.splits SDL_Event.splits if_splits)
  qed
next
  case (Input k j)
  with assms show ?thesis by (auto simp: game_input_def split: if_splits)
next
  case (Update d)
  with assms show ?thesis by (auto simp: game_update_def split: if_splits)
next
  case (Render r a)
  with assms show ?thesis by (auto split: prod.splits)
qed

lemma game_calls_ledger:
  assumes "game_calls g cs = Inr (rcs, g', t)"
    and "lt g = [(gh, Free), (p, Destroy_player), (x, Destroy_platforms),
                 (cam, Destroy_camera), (b, Free)]"
    and "platforms g = Some x \<or> platforms g = None"
    and "platforms g = None \<longrightarrow> state g = GAME_STATE_QUIT"
    and "x \<noteq> gh" and "x \<noteq> p"
    and "gh \<notin> set (loads cs)" and "p \<notin> set (loads cs)"
  shows "\<exists>y. lt g' = [(gh, Free), (p, Destroy_player), (y, Destroy_platforms),
                      (cam, Destroy_camera), (b, Free)] \<and>
             (platforms g' = Some y \<or> platforms g' = None)"
  using assms
proof (induction cs arbitrary: g rcs t x)
  case Nil
  then show ?case by auto
next
  case (Cons c cs)
  from Cons.prems(1) obtain rc g1 t1 rcs' t2 where
    c: "game_call g c = Inr (rc, g1, t1)" and
    cs: "game_calls g1 cs = Inr (rcs', g', t2)"
    by (auto split: sum.splits prod.splits)
  from Cons.prems(7,8) have f1: "gh \<notin> set (loads [c])" "p \<notin> set (loads [c])"
    and f2: "gh \<notin> set (loads cs)" "p \<notin> set (loads cs)"
    using loads_Cons [of c cs] by auto
  from game_call_ledger [OF c Cons.prems(2-6) f1] obtain y where
    y: "lt g1 = [(gh, Free), (p, Destroy_player), (y, Destroy_platforms),
                 (cam, Destroy_camera), (b, Free)]"
      "platforms g1 = Some y \<or> platforms g1 = None"
      "platforms g1 = None \<longrightarrow> state g1 = GAME_STATE_QUIT"
      "y \<noteq> gh" "y \<noteq> p"
    by (elim exE conjE) (rule that)
  from Cons.IH [OF cs y f2] show ?case .
qed


lemma ledger_of_shape:
  assumes "map snd l = [d1, d2, d3, d4, d5]"
  shows "\<exists>h1 h2 h3 h4 h5. l = [(h1, d1), (h2, d2), (h3, d3), (h4, d4), (h5, d5)]"
  using assms by (auto simp: map_eq_Cons_conv)

lemma create_game_ledger:
  assumes "create_game path a = (Some g, t)"
  shows "\<exists>gh p pl c b.
           malloc_game a = Some gh \<and> create_player a = Some p \<and>
           load_platforms_from_file a = Some pl \<and> create_camera a = Some c \<and>
           malloc_chars a = Some b \<and>
           lt g = [(gh, Free), (p, Destroy_player), (pl, Destroy_platforms),
                   (c, Destroy_camera), (b, Free)] \<and>
           player g = Some p \<and> platforms g = Some pl \<and> camera g = Some c \<and>
           level_file_path g = Some (b, path)"
  using assms
  by (auto simp: create_game_def lt_push_def Let_def
      split: if_splits option.splits prod.splits)

lemma destroy_game_releases:
  "destroy_game s = map release (rev (lt s))"
  by (simp add: destroy_game_def destroy_lt_def)

lemma teardown_after_run:
  assumes "create_game path a = (Some g0, t0)"
    and "game_calls g0 cs = Inr (rcs, g1, t1)"
  shows "\<exists>gh p pl c b.
        lt g1 = [(gh, Free), (p, Destroy_player), (pl, Destroy_platforms),
                 (c, Destroy_camera), (b, Free)] \<and>
        destroy_game g1 =
          [Release Free b, Release Destroy_camera c, Release Destroy_platforms pl,
           Release Destroy_player p, Release Free gh]"
proof -
  from create_game_ledger [OF assms(1)]
  have "map snd (lt g0) = [Free, Destroy_player, Destroy_platforms, Destroy_camera, Free]"
    by auto
  with game_calls_shape [OF assms(2)]
  have "map snd (lt g1) = [Free, Destroy_player, Destroy_platforms, Destroy_camera, Free]"
    by simp
  from ledger_of_shape [OF this] obtain gh p pl c b where
    "lt g1 = [(gh, Free), (p, Destroy_player), (pl, Destroy_platforms),
              (c, Destroy_camera), (b, Free)]"
    by (elim exE) (rule that)
  then show ?thesis by (simp add: destroy_game_releases release_def)
qed

lemma teardown_after_run_fresh:
  assumes "create_game path a = (Some g0, t0)"
    and "game_calls g0 cs = Inr (rcs, g1, t1)"
    and "malloc_game a = Some gh" and "create_player a = Some p"
    and "load_platforms_from_file a = Some pl0"
    and "gh \<notin> set (pl0 # loads cs)" and "p \<notin> set (pl0 # loads cs)"
  shows "\<exists>pl c b.
        lt g1 = [(gh, Free), (p, Destroy_player), (pl, Destroy_platforms),
                 (c, Destroy_camera), (b, Free)] \<and>
        player g1 = Some p \<and> (platforms g1 = Some pl \<or> platforms g1 = None) \<and>
        camera g1 = Some c \<and> level_file_path g1 = Some (b, path) \<and>
        destroy_game g1 =
          [Release Free b, Release Destroy_camera c, Release Destroy_platforms pl,
           Release Destroy_player p, Release Free gh]"
proof -
  from create_game_ledger [OF assms(1)] assms(3-5) obtain c b where
    g0: "lt g0 = [(gh, Free), (p, Destroy_player), (pl0, Destroy_platforms),
                  (c, Destroy_camera), (b, Free)]"
      "player g0 = Some p" "platforms g0 = Some pl0" "camera g0 = Some c"
      "level_file_path g0 = Some (b, path)"
    by auto
  from g0(3) have a: "platforms g0 = Some pl0 \<or> platforms g0 = None"
    and q: "platforms g0 = None \<longrightarrow> state g0 = GAME_STATE_QUIT" by simp_all
  from assms(6,7) have f: "pl0 \<noteq> gh" "pl0 \<noteq> p" "gh \<notin> set (loads cs)" "p \<notin> set (loads cs)"
    by auto
  from game_calls_ledger [OF assms(2) g0(1) a q f] obtain pl where
    l: "lt g1 = [(gh, Free), (p, Destroy_player), (pl, Destroy_platforms),
                 (c, Destroy_camera), (b, Free)]"
      "platforms g1 = Some pl \<or> platforms g1 = None"
    by (elim exE conjE) (rule that)
  from game_calls_inv [OF assms(2) g0(5) q]
  have "player g1 = player g0" "camera g1 = camera g0"
    "level_file_path g1 = level_file_path g0" by simp_all
  with g0 l show ?thesis by (simp add: destroy_game_releases release_def)
qed

text \<open>
  Claim C1. When N registrations into the ledger have all succeeded, releasing the whole
  ledger calls the stored release operations in exactly the reverse order of registration,
  each once. \<open>destroy_game\<close> releases the ledger of any session so. \<open>create_game\<close>
  registers the storage of the session itself, then the player, the platforms, the camera
  and the path buffer; after any calls of the entry points, in any state, the ledger holds
  these five entries in this order, and \<open>destroy_game\<close> releases the path buffer, the
  camera, the platforms, the player and the storage of the session, in this order. When
  the loader never answers the address of the session or of the player, which are live,
  the entries are those of the session: its player, its camera, its path buffer, and the
  platforms it holds, or held before a failed reload.
\<close>

theorem teardown_reverse_order:
  "(push_all grow [] regs = Some l \<longrightarrow> destroy_lt l = map release (rev regs)) \<and>
   (create_game path a = (Some g, t) \<longrightarrow>
     (\<exists>gh p pl c b.
        lt g = [(gh, Free), (p, Destroy_player), (pl, Destroy_platforms),
                (c, Destroy_camera), (b, Free)] \<and>
        player g = Some p \<and> platforms g = Some pl \<and> camera g = Some c \<and>
        level_file_path g = Some (b, path) \<and>
        destroy_game g =
          [Release Free b, Release Destroy_camera c, Release Destroy_platforms pl,
           Release Destroy_player p, Release Free gh])) \<and>
   destroy_game s = map release (rev (lt s)) \<and>
   (create_game path a = (Some g0, t0) \<and> game_calls g0 cs = Inr (rcs, g1, t1) \<longrightarrow>
     (\<exists>gh p pl c b.
        lt g1 = [(gh, Free), (p, Destroy_player), (pl, Destroy_platforms),
                 (c, Destroy_camera), (b, Free)] \<and>
        destroy_game g1 =
          [Release Free b, Release Destroy_camera c, Release Destroy_platforms pl,
           Release Destroy_player p, Release Free gh])) \<and>
   (create_game path a = (Some g0, t0) \<and> game_calls g0 cs = Inr (rcs, g1, t1) \<and>
    malloc_game a = Some gh0 \<and> create_player a = Some p0 \<and>
    load_platforms_from_file a = Some pl0 \<and>
    gh0 \<notin> set (pl0 # loads cs) \<and> p0 \<notin> set (pl0 # loads cs) \<longrightarrow>
     (\<exists>pl c b.
        lt g1 = [(gh0, Free), (p0, Destroy_player), (pl, Destroy_platforms),
                 (c, Destroy_camera), (b, Free)] \<and>
        player g1 = Some p0 \<and> (platforms g1 = Some pl \<or> platforms g1 = None) \<and>
        camera g1 = Some c \<and> level_file_path g1 = Some (b, path) \<and>
        destroy_game g1 =
          [Release Free b, Release Destroy_camera c, Release Destroy_platforms pl,
           Release Destroy_player p0, Release Free gh0]))"
proof (intro conjI impI)
  assume "push_all grow [] regs = Some l"
  then have "l = regs" using push_all_append [of grow "[]" regs l] by simp
  then show "destroy_lt l = map release (rev regs)" by (simp add: destroy_lt_def)
next
  assume "create_game path a = (Some g, t)"
  from create_game_ledger [OF this]
  show "\<exists>gh p pl c b.
        lt g = [(gh, Free), (p, Destroy_player), (pl, Destroy_platforms),
                (c, Destroy_camera), (b, Free)] \<and>
        player g = Some p \<and> platforms g = Some pl \<and> camera g = Some c \<and>
        level_file_path g = Some (b, path) \<and>
        destroy_game g =
          [Release Free b, Release Destroy_camera c, Release Destroy_platforms pl,
           Release Destroy_player p, Release Free gh]"
    by (auto simp: destroy_game_releases release_def)
next
  show "destroy_game s = map release (rev (lt s))" by (rule destroy_game_releases)
next
  assume "create_game path a = (Some g0, t0) \<and> game_calls g0 cs = Inr (rcs, g1, t1)"
  then show "\<exists>gh p pl c b.
        lt g1 = [(gh, Free), (p, Destroy_player), (pl, Destroy_platforms),
                 (c, Destroy_camera), (b, Free)] \<and>
        destroy_game g1 =
          [Release Free b, Release Destroy_camera c, Release Destroy_platforms pl,
           Release Destroy_player p, Release Free gh]"
    using teardown_after_run [of path a g0 t0 cs rcs g1 t1] by simp
next
  assume "create_game path a = (Some g0, t0) \<and> game_calls g0 cs = Inr (rcs, g1, t1) \<and>
    malloc_game a = Some gh0 \<and> create_player a = Some p0 \<and>
    load_platforms_from_file a = Some pl0 \<and>
    gh0 \<notin> set (pl0 # loads cs) \<and> p0 \<notin> set (pl0 # loads cs)"
  then show "\<exists>pl c b.
        lt g1 = [(gh0, Free), (p0, Destroy_player), (pl, Destroy_platforms),
                 (c, Destroy_camera), (b, Free)] \<and>
        player g1 = Some p0 \<and> (platforms g1 = Some pl \<or> platforms g1 = None) \<and>
        camera g1 = Some c \<and> level_file_path g1 = Some (b, path) \<and>
        destroy_game g1 =
          [Release Free b, Release Destroy_camera c, Release Destroy_platforms pl,
           Release Destroy_player p0, Release Free gh0]"
    using teardown_after_run_fresh [of path a g0 t0 cs rcs g1 t1 gh0 p0 pl0] by simp
qed

theorem teardown_reverse_order_witness:
  "push_all always_grows [] [(7, Destroy_camera), (8, Free), (9, Destroy_player)] =
     Some [(7, Destroy_camera), (8, Free), (9, Destroy_player)] \<and>
   destroy_lt [(7, Destroy_camera), (8, Free), (9, Destroy_player)] =
     [Release Destroy_player 9, Release Free 8, Release Destroy_camera 7] \<and>
   create_game ''level.txt'' answers_1_to_5 =
     (Some (session_in GAME_STATE_RUNNING), construction_effects) \<and>
   destroy_game (session_in GAME_STATE_RUNNING) =
     [Release Free 5, Release Destroy_camera 4, Release Destroy_platforms 3,
      Release Destroy_player 2, Release Free 1] \<and>
   game_calls (session_in GAME_STATE_RUNNING)
     [Event (SDL_KEYDOWN SDLK_q) (Some 6), Update 16, Event SDL_QUIT None] =
     Inr ([0, 0, 0], reloaded_session,
          [Printf_reloading (Some (5, ''level.txt'')),
           Load_platforms_from_file (Some ''level.txt'') (Some 6),
           Release Destroy_platforms 3,
           Update_player (Some 2) (Some 6) 16, Player_focus_camera (Some 2) (Some 4)]) \<and>
   malloc_game answers_1_to_5 = Some 1 \<and> create_player answers_1_to_5 = Some 2 \<and>
   load_platforms_from_file answers_1_to_5 = Some 3 \<and>
   1 \<notin> set (3 # loads [Event (SDL_KEYDOWN SDLK_q) (Some 6), Update 16, Event SDL_QUIT None]) \<and>
   2 \<notin> set (3 # loads [Event (SDL_KEYDOWN SDLK_q) (Some 6), Update 16, Event SDL_QUIT None]) \<and>
   destroy_game reloaded_session =
     [Release Free 5, Release Destroy_camera 4, Release Destroy_platforms 6,
      Release Destroy_player 2, Release Free 1]"
  using teardown_reverse_order
    [where grow = always_grows
       and regs = "[(7, Destroy_camera), (8, Free), (9, Destroy_player)]"
       and l = "[(7, Destroy_camera), (8, Free), (9, Destroy_player)]"
       and path = "''level.txt''" and a = answers_1_to_5
       and g = "session_in GAME_STATE_RUNNING" and t = construction_effects
       and s = reloaded_session
       and ?g0.0 = "session_in GAME_STATE_RUNNING" and ?t0.0 = construction_effects
       and cs = "[Event (SDL_KEYDOWN SDLK_q) (Some 6), Update 16, Event SDL_QUIT None]"
       and rcs = "[0, 0, 0]" and ?g1.0 = reloaded_session
       and ?t1.0 =
         "[Printf_reloading (Some (5, ''level.txt'')),
           Load_platforms_from_file (Some ''level.txt'') (Some 6),
           Release Destroy_platforms 3,
           Update_player (Some 2) (Some 6) 16, Player_focus_camera (Some 2) (Some 4)]"
       and ?gh0.0 = 1 and ?p0.0 = 2 and ?pl0.0 = 3]
  by (simp add: lt_push_def always_grows_def create_game_def release_def
      game_event_def game_event_running_def lt_reset_def game_update_def
      SDLK_q_def SDLK_SPACE_def)


end
